theory Spec2Isabelle
  imports Complex_Main
begin

section \<open>Errors\<close>

text \<open>
  Every exception the pipeline raises is a value.  The Python source raises plain
  \<open>ValueError\<close>, \<open>KeyError\<close> and \<open>RuntimeError\<close>; the constructors are named after
  the error kinds of the design document, one per raise statement:
  \<^item> \<open>IllegalExpressionError\<close>: \<open>ValueError("Illegal characters in expression")\<close>, expr.py line 20;
  \<^item> \<open>UnknownFieldError\<close>: \<open>KeyError("Unknown column")\<close>, expr.py line 29;
  \<^item> \<open>ParseError\<close>: \<open>ValueError("Failed to parse amount_expr")\<close>, expr.py line 49;
  \<^item> \<open>NoActiveTemplateError\<close>: \<open>RuntimeError("No active template matched.")\<close>, templates.py line 21;
  \<^item> \<open>UnbalancedJournalError\<close>: \<open>ValueError("Unbalanced JE detected")\<close>, engine.py line 110;
  \<^item> \<open>ColumnNotFoundError\<close>: raised by the data-frame library when a named column is absent;
  \<^item> \<open>ItemError\<close>: raised by \<open>.item()\<close> on a frame that is not 1 x 1;
  \<^item> \<open>ProgrammingError\<close>: raised by the database driver when \<open>execute\<close> is given a \<open>COPY\<close>;
  \<^item> \<open>UndefinedTable\<close>: raised by the database;
  \<^item> \<open>InvalidDate\<close>: \<open>ValueError\<close> of \<open>datetime.date\<close> for a month or year out of range.
\<close>

datatype error =
    IllegalExpressionError
  | UnknownFieldError
  | ParseError
  | NoActiveTemplateError
  | UnbalancedJournalError
  | ColumnNotFoundError string
  | ItemError
  | ProgrammingError
  | UndefinedTable string
  | InvalidDate

section \<open>expr.py: the expression compiler\<close>

text \<open>
  A Python \<open>str\<close> is modelled as a \<open>string\<close> whose characters are the code points
  below 256.  \<open>is_space\<close> is \<open>str.isspace\<close> on that range; both \<open>str.strip()\<close> and the
  class \<open>\s\<close> of a \<open>str\<close> pattern use it.
\<close>

definition is_space :: "char \<Rightarrow> bool" where
  "is_space c = (let n = (of_char c :: nat) in
     (9 \<le> n \<and> n \<le> 13) \<or> (28 \<le> n \<and> n \<le> 32) \<or> n = 133 \<or> n = 160)"

definition is_digit :: "char \<Rightarrow> bool" where
  "is_digit c = (let n = (of_char c :: nat) in 48 \<le> n \<and> n \<le> 57)"

definition is_alpha :: "char \<Rightarrow> bool" where
  "is_alpha c = (let n = (of_char c :: nat) in (65 \<le> n \<and> n \<le> 90) \<or> (97 \<le> n \<and> n \<le> 122))"

text \<open>The character class \<open>[0-9\.\s\+\-\*\/\(\),:_a-zA-Z]\<close> of line 19.\<close>

definition allowed_char :: "char \<Rightarrow> bool" where
  "allowed_char c = (is_digit c \<or> c = CHR ''.'' \<or> is_space c \<or> c = CHR ''+'' \<or> c = CHR ''-''
     \<or> c = CHR ''*'' \<or> c = CHR ''/'' \<or> c = CHR ''('' \<or> c = CHR '')'' \<or> c = CHR '',''
     \<or> c = CHR '':'' \<or> c = CHR ''_'' \<or> is_alpha c)"

text \<open>\<open>TOKEN = re.compile(r":([a-zA-Z_][a-zA-Z0-9_]*)")\<close>: the two classes of the name.\<close>

definition ident_start :: "char \<Rightarrow> bool" where
  "ident_start c = (is_alpha c \<or> c = CHR ''_'')"

definition ident_char :: "char \<Rightarrow> bool" where
  "ident_char c = (is_alpha c \<or> is_digit c \<or> c = CHR ''_'')"

definition strip :: "string \<Rightarrow> string" where
  "strip s = rev (dropWhile is_space (rev (dropWhile is_space s)))"

text \<open>\<open>re.fullmatch(r"[...]+", s)\<close>: one or more characters, all of the class.\<close>

definition fullmatch_allowed :: "string \<Rightarrow> bool" where
  "fullmatch_allowed s = (s \<noteq> [] \<and> list_all allowed_char s)"

text \<open>
  The loop over \<open>TOKEN.finditer(s)\<close> of lines 23 to 33.  The scan goes left to right; at a
  colon followed by a name start the match takes the longest name (the star is greedy),
  the name is looked up in \<open>df_cols\<close>, and the scan resumes after the match.  The text
  between matches is copied.  The result is the joined \<open>parts\<close>.  \<open>pl_col name\<close> is the
  text \<open>pl.col('name')\<close> of line 30.
\<close>

definition pl_col :: "string \<Rightarrow> string" where
  "pl_col name = ''pl.col('' @ [CHR 0x27] @ name @ [CHR 0x27] @ '')''"

function substitute_tokens :: "string set \<Rightarrow> string \<Rightarrow> error + string" where
  "substitute_tokens df_cols [] = Inr []"
| "substitute_tokens df_cols (c # cs) =
     (if c = CHR '':'' \<and> cs \<noteq> [] \<and> ident_start (hd cs) then
        (let name = takeWhile ident_char cs; rest = dropWhile ident_char cs in
         if name \<notin> df_cols then Inl UnknownFieldError
         else (case substitute_tokens df_cols rest of
                 Inl e \<Rightarrow> Inl e
               | Inr out \<Rightarrow> Inr (pl_col name @ out)))
      else (case substitute_tokens df_cols cs of
              Inl e \<Rightarrow> Inl e
            | Inr out \<Rightarrow> Inr (c # out)))"
  by pat_completeness auto
termination
  by (relation "measure (\<lambda>(df_cols, s). length s)")
     (auto simp: length_dropWhile_le less_Suc_eq_le)

text \<open>The names that \<open>TOKEN.finditer\<close> matches in a string, in order.\<close>

function field_refs :: "string \<Rightarrow> string list" where
  "field_refs [] = []"
| "field_refs (c # cs) =
     (if c = CHR '':'' \<and> cs \<noteq> [] \<and> ident_start (hd cs)
      then takeWhile ident_char cs # field_refs (dropWhile ident_char cs)
      else field_refs cs)"
  by pat_completeness auto
termination
  by (relation "measure length") (auto simp: length_dropWhile_le less_Suc_eq_le)

text \<open>
  \<open>str.replace(old, new)\<close> and \<open>re.sub\<close> of a literal pattern, for a non-empty \<open>old\<close>:
  every non-overlapping occurrence, leftmost first.
\<close>

function replace :: "string \<Rightarrow> string \<Rightarrow> string \<Rightarrow> string" where
  "replace old new [] = []"
| "replace old new (c # cs) =
     (if old \<noteq> [] \<and> take (length old) (c # cs) = old
      then new @ replace old new (drop (length old) (c # cs))
      else c # replace old new cs)"
  by pat_completeness auto
termination
  by (relation "measure (\<lambda>(old, new, s). length s)") (auto simp: neq_Nil_conv)

text \<open>Lines 17 to 43: the text handed to Python's \<open>eval\<close>, or the error raised before.\<close>

definition to_code :: "string \<Rightarrow> string set \<Rightarrow> error + string" where
  "to_code expr df_cols =
     (let s = strip expr in
      if \<not> fullmatch_allowed s then Inl IllegalExpressionError
      else (case substitute_tokens df_cols s of
              Inl e \<Rightarrow> Inl e
            | Inr code \<Rightarrow>
                Inr (replace ''round('' ''pl.round(''
                      (replace ''max('' ''pl.max_horizontal(''
                        (replace ''min('' ''pl.min_horizontal(''
                          (replace ''abs('' ''pl.abs('' code))))))"

text \<open>
  Lines 45 to 50.  Python's \<open>eval\<close> of the generated text in the namespace \<open>{"pl": pl}\<close> is
  outside the repository: it is the parameter \<open>py_eval\<close>, \<open>None\<close> when the evaluation
  raises an \<open>Exception\<close>, otherwise the object it returns.
\<close>

definition to_polars :: "(string \<Rightarrow> 'e option) \<Rightarrow> string \<Rightarrow> string set \<Rightarrow> error + 'e" where
  "to_polars py_eval expr df_cols =
     (case to_code expr df_cols of
        Inl e \<Rightarrow> Inl e
      | Inr code \<Rightarrow> (case py_eval code of None \<Rightarrow> Inl ParseError | Some expr_obj \<Rightarrow> Inr expr_obj))"

section \<open>Dates\<close>

text \<open>
  A calendar date, compared field by field as \<open>datetime.date\<close> and the SQL type \<open>date\<close>
  compare.  \<open>yyyymm\<close> is \<open>strftime("%Y%m")\<close>: the year on four digits and the month on two.
\<close>

record date =
  year_of :: nat
  month_of :: nat
  day_of :: nat

definition date_lt :: "date \<Rightarrow> date \<Rightarrow> bool" where
  "date_lt a b = (year_of a < year_of b \<or> (year_of a = year_of b \<and>
     (month_of a < month_of b \<or> (month_of a = month_of b \<and> day_of a < day_of b))))"

definition date_le :: "date \<Rightarrow> date \<Rightarrow> bool" where
  "date_le a b = (date_lt a b \<or> (year_of a = year_of b \<and> month_of a = month_of b \<and> day_of a = day_of b))"

definition digit :: "nat \<Rightarrow> char" where
  "digit n = ''0123456789'' ! (n mod 10)"

definition yyyymm :: "date \<Rightarrow> string" where
  "yyyymm d = [digit (year_of d div 1000), digit (year_of d div 100), digit (year_of d div 10),
               digit (year_of d), digit (month_of d div 10), digit (month_of d)]"

section \<open>templates.py: the template repository\<close>

text \<open>
  The tables of the schema \<open>acct\<close> that \<open>load_active_template\<close> reads, a list of rows each.
  A column that the query tests with \<open>IS NULL\<close> is an option.
\<close>

datatype side = DR | CR

record journal_template =
  t_template_code :: string
  t_template_version :: string
  t_txn_type :: string
  t_status :: string
  t_effective_date :: date
  t_expiry_date :: date

record journal_template_match =
  m_match_id :: nat
  m_template_code :: string
  m_template_version :: string
  m_product_code :: "string option"
  m_channel :: "string option"
  m_priority :: int

record journal_template_line =
  tl_template_code :: string
  tl_template_version :: string
  line_no :: int
  side :: side
  account_code :: string
  fund_code :: string
  amount_expr :: string
  amount_round :: nat
  is_active :: bool

record journal_template_line_cond =
  c_template_code :: string
  c_template_version :: string
  c_line_no :: int
  cond_name :: string
  cond_expr :: string

record control =
  require_balanced :: bool
  tolerance_amount :: rat
  balancing_mode :: string

record journal_template_control =
  k_template_code :: string
  k_template_version :: string
  k_control :: control

record template_db =
  journal_template :: "journal_template list"
  journal_template_match :: "journal_template_match list"
  journal_template_line :: "journal_template_line list"
  journal_template_line_cond :: "journal_template_line_cond list"
  journal_template_control :: "journal_template_control list"

text \<open>The dictionary that \<open>load_active_template\<close> returns.\<close>

record template =
  template_code :: string
  template_version :: string
  lines :: "journal_template_line list"
  conds :: "journal_template_line_cond list"
  control :: control

text \<open>
  The join and the \<open>WHERE\<close> clause of lines 6 to 13.  A comparison \<open>m.product_code = %s\<close>
  with a null column is not true, so a null column passes only through \<open>IS NULL\<close>.
\<close>

definition matches :: "journal_template \<Rightarrow> journal_template_match \<Rightarrow> string \<Rightarrow> string \<Rightarrow> string \<Rightarrow> date \<Rightarrow> bool" where
  "matches t m txn_type product_code channel txn_date =
     (m_template_code m = t_template_code t \<and> m_template_version m = t_template_version t
      \<and> t_txn_type t = txn_type \<and> t_status t = ''ACTIVE''
      \<and> date_le (t_effective_date t) txn_date \<and> date_lt txn_date (t_expiry_date t)
      \<and> (m_product_code m = Some product_code \<or> m_product_code m = None)
      \<and> (m_channel m = Some channel \<or> m_channel m = None))"

definition match_rows :: "template_db \<Rightarrow> string \<Rightarrow> string \<Rightarrow> string \<Rightarrow> date
    \<Rightarrow> (journal_template \<times> journal_template_match) list" where
  "match_rows db txn_type product_code channel txn_date =
     [(t, m). t \<leftarrow> journal_template db, m \<leftarrow> journal_template_match db,
              matches t m txn_type product_code channel txn_date]"

text \<open>
  \<open>ORDER BY m.priority ASC, (m.product_code IS NULL)::int, (m.channel IS NULL)::int\<close>:
  the sort key of a row and the order on keys, major key first.
\<close>

definition order_key :: "journal_template_match \<Rightarrow> int \<times> nat \<times> nat" where
  "order_key m = (m_priority m, (if m_product_code m = None then 1 else 0),
                  (if m_channel m = None then 1 else 0))"

definition key_le :: "int \<times> nat \<times> nat \<Rightarrow> int \<times> nat \<times> nat \<Rightarrow> bool" where
  "key_le a b = (case a of (p, x, y) \<Rightarrow> case b of (q, u, v) \<Rightarrow>
     p < q \<or> (p = q \<and> (x < u \<or> (x = u \<and> y \<le> v))))"

text \<open>
  \<open>ORDER BY ... LIMIT 1\<close> followed by \<open>fetchone()\<close>: a row with the least key, \<open>None\<close>
  when there is no row.  Among rows with equal keys the database may return any; the model
  returns the first in join order.
\<close>

fun order_by_limit_1 :: "(journal_template \<times> journal_template_match) list
    \<Rightarrow> (journal_template \<times> journal_template_match) option" where
  "order_by_limit_1 [] = None"
| "order_by_limit_1 (r # rs) =
     (case order_by_limit_1 rs of
        None \<Rightarrow> Some r
      | Some b \<Rightarrow> if key_le (order_key (snd r)) (order_key (snd b)) then Some r else Some b)"

definition default_control :: control where
  "default_control = \<lparr>require_balanced = True, tolerance_amount = 1 / 100, balancing_mode = ''ERROR''\<rparr>"

definition load_active_template :: "template_db \<Rightarrow> string \<Rightarrow> string \<Rightarrow> string \<Rightarrow> date \<Rightarrow> error + template" where
  "load_active_template db txn_type product_code channel txn_date =
     (case order_by_limit_1 (match_rows db txn_type product_code channel txn_date) of
        None \<Rightarrow> Inl NoActiveTemplateError
      | Some row \<Rightarrow>
          (let code = t_template_code (fst row); version = t_template_version (fst row) in
           Inr \<lparr>template_code = code, template_version = version,
                lines = sort_key line_no
                          [l \<leftarrow> journal_template_line db.
                             tl_template_code l = code \<and> tl_template_version l = version],
                conds = [c \<leftarrow> journal_template_line_cond db.
                           c_template_code c = code \<and> c_template_version c = version],
                control = (case [k \<leftarrow> journal_template_control db.
                                   k_template_code k = code \<and> k_template_version k = version] of
                             [] \<Rightarrow> default_control
                           | k # _ \<Rightarrow> k_control k)\<rparr>))"

section \<open>engine.py: the journal expansion engine\<close>

text \<open>A row of \<open>df_txn\<close>, with the columns of the docstring of \<open>expand_transactions\<close>.\<close>

record txn =
  source_rowid :: string
  txn_type :: string
  product_code :: string
  channel :: string
  bank_value_date :: date
  gross_amount :: rat
  tabarru_amount :: rat
  tanahud_amount :: rat
  invest_amount :: rat
  ujroh_amount :: rat
  admin_amount :: rat

text \<open>A row of the frame \<open>headers\<close> (lines 31 to 40).\<close>

record header =
  h_je_number :: string
  h_je_date :: date
  h_je_type :: string
  h_source_rowid :: string
  h_template_code :: string
  h_template_version :: string
  h_run_id :: string
  h_created_by :: string

text \<open>
  A row of the frame \<open>lines\<close>.  The nine columns of \<open>base\<close> (lines 63 to 72) come first;
  the last three are attached at lines 90 to 94 and are empty until then.
\<close>

record line =
  l_je_number :: string
  l_line_no :: int
  l_side :: side
  l_account_code :: string
  l_fund :: string
  l_amount :: rat
  l_product_code :: string
  l_channel :: string
  l_je_date :: date
  l_template_code :: string
  l_template_version :: string
  l_run_id :: string

text \<open>
  The data-frame library is outside the repository.  What the engine uses of it is a
  parameter: \<open>py_eval\<close> is Python's \<open>eval\<close> of the generated text (see \<open>to_polars\<close>);
  \<open>num_value e t\<close> is the value of the compiled amount expression \<open>e\<close> at the row \<open>t\<close> of
  \<open>df_txn\<close>; \<open>bool_value e b\<close> is the value of the compiled condition \<open>e\<close> at the row \<open>b\<close>
  of \<open>base\<close>, where \<open>None\<close> is null; \<open>round_to n x\<close> is \<open>round(n)\<close> of a number.
  The library is taken to evaluate every compiled expression: an exception that it raises
  while evaluating one is not part of the model.
\<close>

record 'e polars =
  py_eval :: "string \<Rightarrow> 'e option"
  num_value :: "'e \<Rightarrow> txn \<Rightarrow> rat"
  bool_value :: "'e \<Rightarrow> line \<Rightarrow> bool option"
  round_to :: "nat \<Rightarrow> rat \<Rightarrow> rat"

text \<open>\<open>set(df_txn.columns)\<close> at line 42: the input columns, \<open>je_number\<close> and \<open>je_date\<close>.\<close>

definition df_cols :: "string set" where
  "df_cols = {''source_rowid'', ''txn_type'', ''product_code'', ''channel'', ''bank_value_date'',
     ''gross_amount'', ''tabarru_amount'', ''tanahud_amount'', ''invest_amount'', ''ujroh_amount'',
     ''admin_amount'', ''je_number'', ''je_date''}"

text \<open>
  Lines 24 to 28 are one call of \<open>with_columns\<close> with three expressions.  The library
  resolves the column names of all expressions of one call against the frame the call is
  made on; that frame is the input, whose columns are those of the docstring; a name that
  is not among them raises \<open>ColumnNotFoundError\<close>.  \<open>je_column_refs\<close> lists the names that the
  three expressions read, in order: the second expression reads \<open>_yyyymm\<close>, the column that
  the first expression of the same call is to create.
\<close>

definition input_cols :: "string set" where
  "input_cols = {''source_rowid'', ''txn_type'', ''product_code'', ''channel'', ''bank_value_date'',
     ''gross_amount'', ''tabarru_amount'', ''tanahud_amount'', ''invest_amount'', ''ujroh_amount'',
     ''admin_amount''}"

definition je_column_refs :: "string list" where
  "je_column_refs = [''bank_value_date'', ''_yyyymm'', ''source_rowid'', ''bank_value_date'']"

fun resolve_cols :: "string set \<Rightarrow> string list \<Rightarrow> error + unit" where
  "resolve_cols cols [] = Inr ()"
| "resolve_cols cols (n # ns) =
     (if n \<in> cols then resolve_cols cols ns else Inl (ColumnNotFoundError n))"

text \<open>
  Line 26: the header number that the second expression is written to give a transaction,
  the year and month of line 25 between \<open>JE-\<close> and the \<open>source_rowid\<close>.
\<close>

definition je_number_of :: "txn \<Rightarrow> string" where
  "je_number_of t = ''JE-'' @ yyyymm (bank_value_date t) @ ''-'' @ source_rowid t"

definition mk_header :: "template \<Rightarrow> string \<Rightarrow> string \<Rightarrow> txn \<Rightarrow> header" where
  "mk_header tpl run_id created_by t =
     \<lparr>h_je_number = je_number_of t, h_je_date = bank_value_date t, h_je_type = ''JE'',
      h_source_rowid = source_rowid t, h_template_code = template_code tpl,
      h_template_version = template_version tpl, h_run_id = run_id, h_created_by = created_by\<rparr>"

definition base_row :: "journal_template_line \<Rightarrow> rat \<Rightarrow> txn \<Rightarrow> line" where
  "base_row rec amount t =
     \<lparr>l_je_number = je_number_of t, l_line_no = line_no rec, l_side = side rec,
      l_account_code = account_code rec, l_fund = fund_code rec, l_amount = amount,
      l_product_code = product_code t, l_channel = channel t, l_je_date = bank_value_date t,
      l_template_code = [], l_template_version = [], l_run_id = []\<rparr>"

text \<open>The conditions of a template line compiled in order (lines 55 to 56 and line 77).\<close>

fun compile_all :: "(string \<Rightarrow> 'e option) \<Rightarrow> string list \<Rightarrow> error + 'e list" where
  "compile_all ev [] = Inr []"
| "compile_all ev (s # ss) =
     (case to_polars ev s df_cols of
        Inl e \<Rightarrow> Inl e
      | Inr x \<Rightarrow> (case compile_all ev ss of Inl e \<Rightarrow> Inl e | Inr xs \<Rightarrow> Inr (x # xs)))"

text \<open>The operator \<open>&\<close> on nullable booleans: false wins over null.\<close>

fun kleene_and :: "bool option \<Rightarrow> bool option \<Rightarrow> bool option" where
  "kleene_and (Some False) y = Some False"
| "kleene_and x (Some False) = Some False"
| "kleene_and (Some True) (Some True) = Some True"
| "kleene_and x y = None"

text \<open>
  Lines 78 to 80: \<open>cond_all = exprs[0]\<close>, then \<open>cond_all = cond_all & e\<close> for each further
  expression; the value of the result at a row.  It is used for a non-empty list only.
\<close>

definition cond_all :: "'e polars \<Rightarrow> 'e list \<Rightarrow> line \<Rightarrow> bool option" where
  "cond_all P exprs b =
     foldl kleene_and (bool_value P (hd exprs) b) (map (\<lambda>e. bool_value P e b) (tl exprs))"

text \<open>
  The body of the loop over the template lines, for an active line (lines 47 to 86): the
  amount expression is compiled, then the conditions of the line; \<open>base\<close> has one row per
  transaction; with conditions only the rows where the mask equals true are kept; the
  amounts are rounded; the rows with amount zero are dropped.
\<close>

definition line_frame :: "'e polars \<Rightarrow> template \<Rightarrow> txn list \<Rightarrow> journal_template_line \<Rightarrow> error + line list" where
  "line_frame P tpl df_txn rec =
     (case to_polars (py_eval P) (amount_expr rec) df_cols of
        Inl e \<Rightarrow> Inl e
      | Inr amt_expr \<Rightarrow>
          (case compile_all (py_eval P) (map cond_expr [c \<leftarrow> conds tpl. c_line_no c = line_no rec]) of
             Inl e \<Rightarrow> Inl e
           | Inr exprs \<Rightarrow>
               (let base = map (\<lambda>t. base_row rec (num_value P amt_expr t) t) df_txn;
                    base = (if exprs \<noteq> [] then [b \<leftarrow> base. cond_all P exprs b = Some True] else base);
                    base = map (\<lambda>b. b\<lparr>l_amount := round_to P (amount_round rec) (l_amount b)\<rparr>) base;
                    base = [b \<leftarrow> base. l_amount b \<noteq> 0]
                in Inr base)))"

fun line_frames :: "'e polars \<Rightarrow> template \<Rightarrow> txn list \<Rightarrow> journal_template_line list \<Rightarrow> error + line list list" where
  "line_frames P tpl df_txn [] = Inr []"
| "line_frames P tpl df_txn (rec # recs) =
     (if \<not> is_active rec then line_frames P tpl df_txn recs
      else (case line_frame P tpl df_txn rec of
              Inl e \<Rightarrow> Inl e
            | Inr base \<Rightarrow>
                (case line_frames P tpl df_txn recs of
                   Inl e \<Rightarrow> Inl e
                 | Inr frames \<Rightarrow> Inr (base # frames))))"

text \<open>
  Lines 100 to 108.  \<open>group_by("je_number","side")\<close> with the sum of the amounts, then the
  pivot on \<open>side\<close>: one row per header number; the cell of a side is null when the header
  has no line of that side; the column of a side exists only when some line of the whole
  frame has that side.
\<close>

definition side_sum :: "line list \<Rightarrow> string \<Rightarrow> side \<Rightarrow> rat option" where
  "side_sum ls je s =
     (let g = [l_amount l. l \<leftarrow> ls, l_je_number l = je \<and> l_side l = s]
      in if g = [] then None else Some (sum_list g))"

definition fill_null :: "rat option \<Rightarrow> rat \<Rightarrow> rat" where
  "fill_null v d = (case v of None \<Rightarrow> d | Some x \<Rightarrow> x)"

definition je_diff :: "line list \<Rightarrow> string \<Rightarrow> rat" where
  "je_diff ls je = fill_null (side_sum ls je DR) 0 - fill_null (side_sum ls je CR) 0"

definition max_unbal :: "line list \<Rightarrow> rat" where
  "max_unbal ls = \<bar>foldr max (map (\<lambda>je. \<bar>je_diff ls je\<bar>) (remdups (map l_je_number ls))) 0\<bar>"

text \<open>Lines 98 to 110: the balance validation.\<close>

definition check_balanced :: "control \<Rightarrow> line list \<Rightarrow> error + unit" where
  "check_balanced ctrl ls =
     (if require_balanced ctrl \<and> ls \<noteq> [] then
        (if DR \<notin> set (map l_side ls) then Inl (ColumnNotFoundError ''DR'')
         else if CR \<notin> set (map l_side ls) then Inl (ColumnNotFoundError ''CR'')
         else if max_unbal ls > tolerance_amount ctrl then Inl UnbalancedJournalError
         else Inr ())
      else Inr ())"

text \<open>
  \<open>expand_transactions\<close>.  The fresh \<open>uuid4\<close> of line 13 is the argument \<open>run_id\<close>; the
  database that \<open>load_active_template\<close> reads is the argument \<open>db\<close>.  After the template is
  resolved from row 0 (lines 20 and 21) comes the call of lines 24 to 28; the headers, the
  loop over the template lines and the validation follow it.
\<close>

definition expand_transactions :: "'e polars \<Rightarrow> template_db \<Rightarrow> string \<Rightarrow> txn list \<Rightarrow> string
    \<Rightarrow> error + (header list \<times> line list \<times> string)" where
  "expand_transactions P db run_id df_txn created_by =
     (if df_txn = [] then Inr ([], [], run_id)
      else
        (let any_row = hd df_txn in
         case load_active_template db (txn_type any_row) (product_code any_row)
                (channel any_row) (bank_value_date any_row) of
           Inl e \<Rightarrow> Inl e
         | Inr tpl \<Rightarrow>
             (case resolve_cols input_cols je_column_refs of
                Inl e \<Rightarrow> Inl e
              | Inr resolved \<Rightarrow>
                  (let headers = map (mk_header tpl run_id created_by) df_txn in
                   case line_frames P tpl df_txn (lines tpl) of
                     Inl e \<Rightarrow> Inl e
                   | Inr frames \<Rightarrow>
                       (let ls = map (\<lambda>b. b\<lparr>l_template_code := template_code tpl,
                                              l_template_version := template_version tpl,
                                              l_run_id := run_id\<rparr>) (concat frames)
                        in case check_balanced (control tpl) ls of
                             Inl e \<Rightarrow> Inl e
                           | Inr u \<Rightarrow> Inr (headers, ls, run_id))))))"

section \<open>posting.py: the ledger poster\<close>

text \<open>
  The store: the two permanent ledger tables, the two staging tables and the partitions of
  the line table that exist.
\<close>

record ledger_entry_header =
  je_id :: nat
  le_header :: header

record ledger_entry_line =
  ll_je_id :: nat
  ll_line_no :: int
  ll_side :: side
  ll_account_code :: string
  ll_fund :: string
  ll_amount :: rat
  ll_je_date :: date

record je_header_staging =
  sh_header :: header
  sh_posted :: bool
  sh_posted_at :: "nat option"

record je_line_staging =
  sl_line :: line
  sl_posted :: bool
  sl_posted_at :: "nat option"

record account_balance_snapshot =
  period_start :: date
  s_account_code :: string
  s_fund :: string
  opening_balance :: rat
  debit :: rat
  credit :: rat
  closing_balance :: rat
  calculated_at :: nat

record store =
  ledger_entry_header :: "ledger_entry_header list"
  ledger_entry_line :: "ledger_entry_line list"
  je_header_staging :: "je_header_staging list"
  je_line_staging :: "je_line_staging list"
  partitions :: "date list"
  account_balance_snapshot :: "account_balance_snapshot list"

text \<open>
  \<open>date(year, month, 1)\<close> and \<open>start_date + relativedelta(months=1)\<close>, which raise when the
  year leaves the range 1 to 9999.
\<close>

definition first_of_month :: "nat \<Rightarrow> nat \<Rightarrow> error + date" where
  "first_of_month year month =
     (if 1 \<le> year \<and> year \<le> 9999 \<and> 1 \<le> month \<and> month \<le> 12
      then Inr \<lparr>year_of = year, month_of = month, day_of = 1\<rparr>
      else Inl InvalidDate)"

definition next_month :: "date \<Rightarrow> error + date" where
  "next_month d = (if month_of d = 12
                   then (if year_of d = 9999 then Inl InvalidDate
                         else Inr (d\<lparr>year_of := year_of d + 1, month_of := 1\<rparr>))
                   else Inr (d\<lparr>month_of := month_of d + 1\<rparr>))"

text \<open>Lines 7 and 8 of both \<open>post_to_ledger\<close> and \<open>update_month_balance\<close>.\<close>

definition month_bounds :: "nat \<Rightarrow> nat \<Rightarrow> error + (date \<times> date)" where
  "month_bounds year month =
     (case first_of_month year month of
        Inl e \<Rightarrow> Inl e
      | Inr start_date \<Rightarrow>
          (case next_month start_date of
             Inl e \<Rightarrow> Inl e
           | Inr end_date \<Rightarrow> Inr (start_date, end_date)))"

text \<open>
  db.py.  \<open>Cursor.execute\<close> of the database driver (psycopg 3, which \<open>import psycopg\<close>
  names) does not run a \<open>COPY\<close> statement: it raises \<open>ProgrammingError\<close> and refers to
  \<open>Cursor.copy\<close>.  The other statements of the pipeline go through.
\<close>

datatype statement = Copy_From_Stdin | Other_Statement

definition cursor_execute :: "statement \<Rightarrow> error + unit" where
  "cursor_execute st = (case st of Copy_From_Stdin \<Rightarrow> Inl ProgrammingError | Other_Statement \<Rightarrow> Inr ())"

text \<open>
  \<open>copy_from_polars\<close> (db.py lines 10 to 19): the frame is written as CSV text, the \<open>COPY\<close>
  statement is given to \<open>cur.execute\<close> (line 18), and \<open>cur.copy\<close> is called with the text
  (line 19); the object that \<open>cur.copy\<close> returns is not entered, so line 19 transfers no
  row.  The result is the table after the call.
\<close>

definition copy_from_polars :: "'t list \<Rightarrow> 'r list \<Rightarrow> error + 't list" where
  "copy_from_polars table rows =
     (case cursor_execute Copy_From_Stdin of Inl e \<Rightarrow> Inl e | Inr u \<Rightarrow> Inr table)"

text \<open>An order-preserving number of a calendar date, the key of \<open>sort("je_date")\<close>.\<close>

definition date_ordinal :: "date \<Rightarrow> nat" where
  "date_ordinal d = (year_of d * 12 + month_of d) * 31 + day_of d"

text \<open>\<open>headers.select("run_id").unique().item()\<close>: the one run identifier of the frame.\<close>

definition the_run_id :: "header list \<Rightarrow> error + string" where
  "the_run_id headers = (case remdups (map h_run_id headers) of [r] \<Rightarrow> Inr r | _ \<Rightarrow> Inl ItemError)"

text \<open>
  \<open>post_to_ledger\<close>.  The frame of an empty batch has no columns, so the \<open>select\<close> of step 1
  fails on it; the seven columns that step 1 selects leave \<open>created_by\<close> out.  \<open>now\<close> is the
  value of \<open>now()\<close>.  The result is the store at the end of the \<open>with\<close> block, before the
  connection commits.
\<close>

definition post_to_ledger :: "store \<Rightarrow> nat \<Rightarrow> header list \<Rightarrow> line list \<Rightarrow> nat \<Rightarrow> nat \<Rightarrow> error + store" where
  "post_to_ledger db now headers ls year month =
     (case month_bounds year month of
        Inl e \<Rightarrow> Inl e
      | Inr (start_date, end_date) \<Rightarrow>
          (if headers = [] then Inl (ColumnNotFoundError ''je_number'')
           else
             (case copy_from_polars (ledger_entry_header db)
                     (map (\<lambda>h. h\<lparr>h_created_by := []\<rparr>) headers) of
                Inl e \<Rightarrow> Inl e
              | Inr tbl \<Rightarrow>
                  (let df_map = [(h_je_number (le_header r), je_id r). r \<leftarrow> tbl,
                                   date_le start_date (h_je_date (le_header r))
                                   \<and> date_lt (h_je_date (le_header r)) end_date];
                       df_lines = sort_key (\<lambda>r. date_ordinal (ll_je_date r))
                                    [\<lparr>ll_je_id = snd jm, ll_line_no = l_line_no l, ll_side = l_side l,
                                      ll_account_code = l_account_code l, ll_fund = l_fund l,
                                      ll_amount = l_amount l, ll_je_date = l_je_date l\<rparr>.
                                       l \<leftarrow> ls, jm \<leftarrow> df_map, fst jm = l_je_number l];
                       parts = (if start_date \<in> set (partitions db) then partitions db
                                else partitions db @ [start_date])
                   in case copy_from_polars (ledger_entry_line db) df_lines of
                        Inl e \<Rightarrow> Inl e
                      | Inr line_tbl \<Rightarrow>
                          (case the_run_id headers of
                             Inl e \<Rightarrow> Inl e
                           | Inr run_id \<Rightarrow>
                               Inr (db\<lparr>ledger_entry_header := tbl,
                                       partitions := parts,
                                       ledger_entry_line := line_tbl,
                                       je_header_staging :=
                                         map (\<lambda>r. if h_run_id (sh_header r) = run_id
                                                   then r\<lparr>sh_posted := True, sh_posted_at := Some now\<rparr>
                                                   else r)
                                             (je_header_staging db),
                                       je_line_staging :=
                                         map (\<lambda>r. if l_run_id (sl_line r) = run_id
                                                   then r\<lparr>sl_posted := True, sl_posted_at := Some now\<rparr>
                                                   else r)
                                             (je_line_staging db)\<rparr>))))))"

text \<open>
  \<open>with get_conn() as conn\<close>: the connection commits when the block ends normally and rolls
  back when it raises.  The store after a call of \<open>post_to_ledger\<close>.
\<close>

definition after_post :: "store \<Rightarrow> nat \<Rightarrow> header list \<Rightarrow> line list \<Rightarrow> nat \<Rightarrow> nat \<Rightarrow> store" where
  "after_post db now headers ls year month =
     (case post_to_ledger db now headers ls year month of Inl e \<Rightarrow> db | Inr db' \<Rightarrow> db')"

section \<open>balances.py: the balance snapshotter\<close>

text \<open>The common table expression \<open>mvt\<close> of lines 10 to 18: one row per account and fund.\<close>

record mvt_row =
  mv_account_code :: string
  mv_fund :: string
  mv_debit :: rat
  mv_credit :: rat

definition mvt :: "store \<Rightarrow> date \<Rightarrow> date \<Rightarrow> mvt_row list" where
  "mvt db start_date end_date =
     (let joined = [l. l \<leftarrow> ledger_entry_line db, h \<leftarrow> ledger_entry_header db, je_id h = ll_je_id l,
                       date_le start_date (h_je_date (le_header h))
                       \<and> date_lt (h_je_date (le_header h)) end_date]
      in [\<lparr>mv_account_code = fst g, mv_fund = snd g,
            mv_debit = sum_list [if ll_side l = DR then ll_amount l else 0.
                                   l \<leftarrow> joined, (ll_account_code l, ll_fund l) = g],
            mv_credit = sum_list [if ll_side l = CR then ll_amount l else 0.
                                    l \<leftarrow> joined, (ll_account_code l, ll_fund l) = g]\<rparr>.
            g \<leftarrow> remdups (map (\<lambda>l. (ll_account_code l, ll_fund l)) joined)])"

text \<open>
  The \<open>SELECT\<close> of line 21.  Its select list names the columns of a relation \<open>m\<close>; the rows
  come from the relations of its \<open>FROM\<close> clause, given with their aliases.  A qualifier that
  no relation of the \<open>FROM\<close> clause carries is an error of the statement.
\<close>

definition select_snapshot_rows :: "(string \<times> mvt_row list) list \<Rightarrow> date \<Rightarrow> nat
    \<Rightarrow> error + account_balance_snapshot list" where
  "select_snapshot_rows from_clause start_date now =
     (case map_of from_clause ''m'' of
        None \<Rightarrow> Inl (UndefinedTable ''m'')
      | Some rel \<Rightarrow>
          Inr (map (\<lambda>m. \<lparr>period_start = start_date, s_account_code = mv_account_code m,
                          s_fund = mv_fund m, opening_balance = 0, debit = mv_debit m,
                          credit = mv_credit m, closing_balance = 0 + mv_debit m - mv_credit m,
                          calculated_at = now\<rparr>) rel))"

text \<open>\<open>INSERT ... ON CONFLICT (period_start, account_code, fund) DO UPDATE\<close> of one row.\<close>

fun upsert :: "account_balance_snapshot list \<Rightarrow> account_balance_snapshot \<Rightarrow> account_balance_snapshot list" where
  "upsert [] n = [n]"
| "upsert (r # rs) n =
     (if period_start r = period_start n \<and> s_account_code r = s_account_code n \<and> s_fund r = s_fund n
      then r\<lparr>debit := debit n, credit := credit n, closing_balance := closing_balance n,
              calculated_at := calculated_at n\<rparr> # rs
      else r # upsert rs n)"

text \<open>
  \<open>update_month_balance\<close>.  The statement defines \<open>mvt\<close> and then selects without a \<open>FROM\<close>
  clause: the list of relations of the \<open>SELECT\<close> is empty.
\<close>

definition update_month_balance :: "store \<Rightarrow> nat \<Rightarrow> nat \<Rightarrow> nat \<Rightarrow> error + store" where
  "update_month_balance db now year month =
     (case month_bounds year month of
        Inl e \<Rightarrow> Inl e
      | Inr (start_date, end_date) \<Rightarrow>
          (let cte = mvt db start_date end_date
           in case select_snapshot_rows [] start_date now of
                Inl e \<Rightarrow> Inl e
              | Inr rows \<Rightarrow>
                  Inr (db\<lparr>account_balance_snapshot := foldl upsert (account_balance_snapshot db) rows\<rparr>)))"

section \<open>Sample data\<close>

text \<open>
  A concrete instance of the library parameter and a small database, for evaluating the
  definitions.  The evaluator knows three generated texts: the two amount columns and the
  condition \<open>pl.col('channel').eq(pl.col('product_code'))\<close>, a boolean expression that the
  character class lets through.  Rounding is to the nearest multiple of \<open>10 ^ -n\<close>.
\<close>

datatype sample_expr = GrossAmount | AdminAmount | ChannelEqProduct

definition sample_eval :: "string \<Rightarrow> sample_expr option" where
  "sample_eval code =
     (if code = pl_col ''gross_amount'' then Some GrossAmount
      else if code = pl_col ''admin_amount'' then Some AdminAmount
      else if code = pl_col ''channel'' @ ''.eq('' @ pl_col ''product_code'' @ '')'' then Some ChannelEqProduct
      else None)"

definition sample_polars :: "sample_expr polars" where
  "sample_polars =
     \<lparr>py_eval = sample_eval,
      num_value = (\<lambda>e t. case e of GrossAmount \<Rightarrow> gross_amount t | AdminAmount \<Rightarrow> admin_amount t
                          | ChannelEqProduct \<Rightarrow> 0),
      bool_value = (\<lambda>e b. case e of ChannelEqProduct \<Rightarrow> Some (l_channel b = l_product_code b)
                           | GrossAmount \<Rightarrow> None | AdminAmount \<Rightarrow> None),
      round_to = (\<lambda>n x. of_int (round (x * 10 ^ n)) / 10 ^ n)\<rparr>"

definition sample_line :: "string \<Rightarrow> int \<Rightarrow> side \<Rightarrow> string \<Rightarrow> string \<Rightarrow> bool \<Rightarrow> journal_template_line" where
  "sample_line code n s acct amt act =
     \<lparr>tl_template_code = code, tl_template_version = ''1'', line_no = n, side = s,
      account_code = acct, fund_code = ''GEN'', amount_expr = amt, amount_round = 2,
      is_active = act\<rparr>"

definition sample_db :: template_db where
  "sample_db =
     \<lparr>journal_template =
        [\<lparr>t_template_code = ''PREM'', t_template_version = ''1'', t_txn_type = ''PREMIUM_RECEIPT'',
          t_status = ''ACTIVE'',
          t_effective_date = \<lparr>year_of = 2025, month_of = 1, day_of = 1\<rparr>,
          t_expiry_date = \<lparr>year_of = 2026, month_of = 1, day_of = 1\<rparr>\<rparr>,
         \<lparr>t_template_code = ''FAM'', t_template_version = ''1'', t_txn_type = ''PREMIUM_RECEIPT'',
          t_status = ''ACTIVE'',
          t_effective_date = \<lparr>year_of = 2025, month_of = 1, day_of = 1\<rparr>,
          t_expiry_date = \<lparr>year_of = 2026, month_of = 1, day_of = 1\<rparr>\<rparr>],
      journal_template_match =
        [\<lparr>m_match_id = 1, m_template_code = ''PREM'', m_template_version = ''1'',
          m_product_code = None, m_channel = None, m_priority = 100\<rparr>,
         \<lparr>m_match_id = 2, m_template_code = ''FAM'', m_template_version = ''1'',
          m_product_code = Some ''FAM01'', m_channel = None, m_priority = 100\<rparr>],
      journal_template_line =
        [sample_line ''PREM'' 1 DR ''1000'' '':gross_amount'' True,
         sample_line ''PREM'' 2 CR ''2000'' '':gross_amount'' True,
         sample_line ''PREM'' 3 DR ''5000'' '':admin_amount'' True,
         sample_line ''PREM'' 4 CR ''2100'' '':admin_amount'' True,
         sample_line ''PREM'' 5 DR ''9999'' '':gross_amount'' False,
         sample_line ''FAM'' 1 DR ''1000'' '':gross_amount'' True,
         sample_line ''FAM'' 2 CR ''2100'' '':admin_amount'' True],
      journal_template_line_cond =
        [\<lparr>c_template_code = ''PREM'', c_template_version = ''1'', c_line_no = 3,
          cond_name = ''same_code'', cond_expr = '':channel.eq(:product_code)''\<rparr>,
         \<lparr>c_template_code = ''PREM'', c_template_version = ''1'', c_line_no = 4,
          cond_name = ''same_code'', cond_expr = '':channel.eq(:product_code)''\<rparr>],
      journal_template_control = []\<rparr>"

definition sample_txn :: "string \<Rightarrow> string \<Rightarrow> string \<Rightarrow> rat \<Rightarrow> rat \<Rightarrow> txn" where
  "sample_txn rowid product chan gross admin =
     \<lparr>source_rowid = rowid, txn_type = ''PREMIUM_RECEIPT'', product_code = product, channel = chan,
      bank_value_date = \<lparr>year_of = 2025, month_of = 10, day_of = 3\<rparr>,
      gross_amount = gross, tabarru_amount = 0, tanahud_amount = 0, invest_amount = 0,
      ujroh_amount = 0, admin_amount = admin\<rparr>"

definition sample_date :: date where
  "sample_date = \<lparr>year_of = 2025, month_of = 10, day_of = 3\<rparr>"

text \<open>
  A batch of two transactions.  The first has product \<open>LIFE01\<close>, which only the wildcard
  row of template \<open>PREM\<close> matches; the second has product \<open>FAM01\<close>, for which the row of
  template \<open>FAM\<close> comes first.
\<close>

definition sample_batch :: "txn list" where
  "sample_batch = [sample_txn ''TXN-1'' ''LIFE01'' ''AGENCY'' 150000 0,
                   sample_txn ''TXN-2'' ''FAM01'' ''FAM01'' 0 5]"

section \<open>Properties of the expression compiler\<close>

lemma strip_keeps_non_space:
  assumes "c \<in> set s" and "\<not> is_space c"
  shows "c \<in> set (strip s)"
proof -
  have keep: "c \<in> set xs \<Longrightarrow> c \<in> set (dropWhile is_space xs)" for xs
    using assms(2) by (induction xs) auto
  have "c \<in> set (rev (dropWhile is_space s))"
    using keep [OF assms(1)] by simp
  then have "c \<in> set (dropWhile is_space (rev (dropWhile is_space s)))"
    by (rule keep)
  then show ?thesis by (simp add: strip_def)
qed

lemma set_strip_subset: "set (strip s) \<subseteq> set s"
proof
  fix c assume "c \<in> set (strip s)"
  then have "c \<in> set (dropWhile is_space (rev (dropWhile is_space s)))"
    by (simp add: strip_def)
  then have "c \<in> set (dropWhile is_space s)"
    using set_dropWhileD by fastforce
  then show "c \<in> set s" by (rule set_dropWhileD)
qed

lemma space_is_allowed: "is_space c \<Longrightarrow> allowed_char c"
  by (simp add: allowed_char_def)

lemma illegal_char_rejected:
  assumes "\<exists>c \<in> set expr. \<not> allowed_char c"
  shows "to_code expr cols = Inl IllegalExpressionError"
proof -
  from assms obtain c where c: "c \<in> set expr" "\<not> allowed_char c" by blast
  then have "c \<in> set (strip expr)"
    using strip_keeps_non_space space_is_allowed by blast
  then have "\<not> list_all allowed_char (strip expr)"
    using c(2) by (auto simp: list_all_iff)
  then show ?thesis by (simp add: to_code_def fullmatch_allowed_def)
qed

lemma substitute_unknown:
  "\<exists>n \<in> set (field_refs s). n \<notin> cols \<Longrightarrow> substitute_tokens cols s = Inl UnknownFieldError"
proof (induction cols s rule: substitute_tokens.induct)
  case (1 cols)
  then show ?case by simp
next
  case (2 cols c cs)
  show ?case
  proof (cases "c = CHR '':'' \<and> cs \<noteq> [] \<and> ident_start (hd cs)")
    case True
    show ?thesis
    proof (cases "takeWhile ident_char cs \<in> cols")
      case False
      with True show ?thesis by simp
    next
      case known: True
      with True 2 have "substitute_tokens cols (dropWhile ident_char cs) = Inl UnknownFieldError"
        by auto
      with True known show ?thesis by simp
    qed
  next
    case False
    with 2 have "substitute_tokens cols cs = Inl UnknownFieldError" by auto
    with False show ?thesis by auto
  qed
qed

lemma field_refs_nonempty: "field_refs s \<noteq> [] \<Longrightarrow> s \<noteq> []"
  by (cases s) auto

lemma unknown_field_rejected:
  assumes ok: "\<forall>c \<in> set expr. allowed_char c"
    and unk: "\<exists>n \<in> set (field_refs (strip expr)). n \<notin> cols"
  shows "to_code expr cols = Inl UnknownFieldError"
proof -
  from unk have "field_refs (strip expr) \<noteq> []" by auto
  then have ne: "strip expr \<noteq> []" by (rule field_refs_nonempty)
  have "list_all allowed_char (strip expr)"
    using ok set_strip_subset [of expr] by (auto simp: list_all_iff)
  with ne have "fullmatch_allowed (strip expr)" by (simp add: fullmatch_allowed_def)
  then show ?thesis
    using substitute_unknown [OF unk] by (simp add: to_code_def)
qed

text \<open>
  C2, as stated: compilation fails with \<open>UnknownFieldError\<close> whenever the text has a field
  reference that is not a known field.  The text \<open>:x;\<close> refers to the unknown field \<open>x\<close>,
  and its compilation raises \<open>IllegalExpressionError\<close> instead: the character check of
  line 19 comes before the lookup of line 28.
\<close>

theorem unknown_field_counterexample:
  "''x'' \<in> set (field_refs (strip '':x;'')) \<and> ''x'' \<notin> df_cols
   \<and> to_polars sample_eval '':x;'' df_cols \<noteq> Inl UnknownFieldError"
  by code_simp

text \<open>
  C2, amended: for every evaluator, every text and every set of known fields, compilation
  fails with \<open>IllegalExpressionError\<close> whenever the text has a character outside the class
  of line 19, and fails with \<open>UnknownFieldError\<close> whenever all its characters are in the
  class and it has a field reference that is not a known field.  The result is an error
  whatever the evaluator is: the generated text is never evaluated.
\<close>

theorem to_polars_rejects:
  "((\<exists>c \<in> set expr. \<not> allowed_char c) \<longrightarrow> to_polars ev expr cols = Inl IllegalExpressionError)
   \<and> ((\<forall>c \<in> set expr. allowed_char c) \<and> (\<exists>n \<in> set (field_refs (strip expr)). n \<notin> cols)
        \<longrightarrow> to_polars ev expr cols = Inl UnknownFieldError)"
  by (simp add: to_polars_def illegal_char_rejected unknown_field_rejected)

theorem to_polars_rejects_witness:
  "to_polars sample_eval '':gross_amount; DROP TABLE x'' df_cols = Inl IllegalExpressionError
   \<and> to_polars sample_eval '':bogus + 1'' df_cols = Inl UnknownFieldError"
proof -
  have a: "\<exists>c \<in> set '':gross_amount; DROP TABLE x''. \<not> allowed_char c"
    by code_simp
  have b: "(\<forall>c \<in> set '':bogus + 1''. allowed_char c)
           \<and> (\<exists>n \<in> set (field_refs (strip '':bogus + 1'')). n \<notin> df_cols)"
    by code_simp
  show ?thesis
    using to_polars_rejects [of "'':gross_amount; DROP TABLE x''" sample_eval df_cols]
          to_polars_rejects [of "'':bogus + 1''" sample_eval df_cols] a b
    by blast
qed

text \<open>
  C3, at the failing input.  The text \<open>:gross_amount.sum()\<close> passes the character check and
  the field lookup; what Python's \<open>eval\<close> receives is \<open>pl.col('gross_amount').sum()\<close>, a
  method call, and its value is returned as the compiled expression.  The text \<open>exit()\<close>
  reaches \<open>eval\<close> unchanged.  Neither is a numeric literal, a field reference, a
  parenthesis, an operator or one of \<open>abs\<close>, \<open>min\<close>, \<open>max\<close>, \<open>round\<close>.
\<close>

theorem to_polars_evaluates_arbitrary_calls:
  "to_polars ev '':gross_amount.sum()'' df_cols =
     (case ev (pl_col ''gross_amount'' @ ''.sum()'') of None \<Rightarrow> Inl ParseError | Some e \<Rightarrow> Inr e)
   \<and> to_polars ev ''exit()'' df_cols =
     (case ev ''exit()'' of None \<Rightarrow> Inl ParseError | Some e \<Rightarrow> Inr e)"
proof -
  have a: "to_code '':gross_amount.sum()'' df_cols = Inr (pl_col ''gross_amount'' @ ''.sum()'')"
    by code_simp
  have b: "to_code ''exit()'' df_cols = Inr ''exit()''"
    by code_simp
  show ?thesis by (simp add: to_polars_def a b)
qed

section \<open>Properties of the conditions\<close>

lemma comparison_char_not_allowed:
  "c = CHR ''<'' \<or> c = CHR ''>'' \<or> c = CHR ''='' \<or> c = CHR ''!'' \<Longrightarrow> \<not> allowed_char c"
  by (auto simp: allowed_char_def is_digit_def is_space_def is_alpha_def)

lemma compile_all_list_all2:
  "compile_all ev ss = Inr es \<longleftrightarrow> list_all2 (\<lambda>s e. to_polars ev s df_cols = Inr e) ss es"
proof (induction ss arbitrary: es)
  case Nil
  then show ?case by auto
next
  case (Cons s ss)
  show ?case
  proof (cases "to_polars ev s df_cols")
    case (Inl e)
    then show ?thesis by (auto simp: list_all2_Cons1)
  next
    case (Inr x)
    show ?thesis
    proof (cases "compile_all ev ss")
      case (Inl e)
      with Inr Cons.IH show ?thesis by (auto simp: list_all2_Cons1)
    next
      case rest: (Inr xs)
      with Inr Cons.IH [of xs] Cons.IH show ?thesis
        by (auto simp: list_all2_Cons1)
    qed
  qed
qed

lemma kleene_and_true: "kleene_and x y = Some True \<longleftrightarrow> x = Some True \<and> y = Some True"
  by (cases "(x, y)" rule: kleene_and.cases) auto

lemma foldl_kleene_and_true:
  "foldl kleene_and a vs = Some True \<longleftrightarrow> a = Some True \<and> (\<forall>v \<in> set vs. v = Some True)"
  by (induction vs arbitrary: a) (auto simp: kleene_and_true)

lemma cond_all_true:
  assumes "es \<noteq> []"
  shows "cond_all P es b = Some True \<longleftrightarrow> (\<forall>e \<in> set es. bool_value P e b = Some True)"
proof -
  from assms obtain e es' where es: "es = e # es'" by (cases es) auto
  show ?thesis by (auto simp: es cond_all_def foldl_kleene_and_true)
qed




section \<open>The balance snapshot statement\<close>

text \<open>
  C9, at the failing input.  For the period 2025-10, whatever the store holds, the
  statement of \<open>update_month_balance\<close> fails: its \<open>SELECT\<close> refers to the columns of \<open>m\<close>
  and has no \<open>FROM\<close> clause.  No snapshot row is written.
\<close>

theorem update_month_balance_fails:
  "update_month_balance db now 2025 10 = Inl (UndefinedTable ''m'')"
  by (simp add: update_month_balance_def month_bounds_def first_of_month_def next_month_def
        select_snapshot_rows_def)

section \<open>Properties of the template repository\<close>

lemma key_le_total: "key_le a b \<or> key_le b a"
  by (auto simp: key_le_def split: prod.splits)

lemma key_le_trans: "key_le a b \<Longrightarrow> key_le b c \<Longrightarrow> key_le a c"
  by (auto simp: key_le_def split: prod.splits)

lemma key_le_refl: "key_le a a"
  by (auto simp: key_le_def split: prod.splits)

lemma order_by_limit_1_None: "order_by_limit_1 rs = None \<longleftrightarrow> rs = []"
  by (cases rs) (auto split: option.splits)

lemma order_by_limit_1_least:
  "order_by_limit_1 rs = Some r \<Longrightarrow>
     r \<in> set rs \<and> (\<forall>r' \<in> set rs. key_le (order_key (snd r)) (order_key (snd r')))"
proof (induction rs arbitrary: r)
  case Nil
  then show ?case by simp
next
  case (Cons x xs)
  show ?case
  proof (cases "order_by_limit_1 xs")
    case None
    then have "xs = []" by (simp add: order_by_limit_1_None)
    with Cons.prems show ?thesis by (simp add: key_le_refl)
  next
    case (Some b)
    note IH = Cons.IH [OF Some]
    show ?thesis
    proof (cases "key_le (order_key (snd x)) (order_key (snd b))")
      case True
      with Some Cons.prems have r: "r = x" by simp
      have "\<forall>r' \<in> set xs. key_le (order_key (snd x)) (order_key (snd r'))"
        using IH True key_le_trans by blast
      with r show ?thesis by (simp add: key_le_refl)
    next
      case False
      with Some Cons.prems have r: "r = b" by simp
      have "key_le (order_key (snd b)) (order_key (snd x))"
        using False key_le_total by blast
      with r IH show ?thesis by simp
    qed
  qed
qed

lemma set_match_rows:
  "set (match_rows db ty pc ch d) =
     {(t, m). t \<in> set (journal_template db) \<and> m \<in> set (journal_template_match db)
              \<and> matches t m ty pc ch d}"
  by (auto simp: match_rows_def)

lemma key_le_order_key:
  "key_le (order_key m) (order_key m') \<longleftrightarrow>
     m_priority m < m_priority m'
     \<or> (m_priority m = m_priority m'
        \<and> ((m_product_code m \<noteq> None \<and> m_product_code m' = None)
           \<or> ((m_product_code m = None \<longleftrightarrow> m_product_code m' = None)
              \<and> (m_channel m = None \<longrightarrow> m_channel m' = None))))"
  by (auto simp: key_le_def order_key_def)

lemma load_active_template_Inl:
  "load_active_template db ty pc ch d = Inl e \<longleftrightarrow>
     e = NoActiveTemplateError \<and> match_rows db ty pc ch d = []"
  by (auto simp: load_active_template_def Let_def order_by_limit_1_None split: option.splits)

lemma load_active_template_Inr:
  assumes "load_active_template db ty pc ch d = Inr tpl"
  shows "\<exists>t m. order_by_limit_1 (match_rows db ty pc ch d) = Some (t, m)
           \<and> template_code tpl = t_template_code t \<and> template_version tpl = t_template_version t"
  using assms
  by (cases "order_by_limit_1 (match_rows db ty pc ch d)")
     (auto simp: load_active_template_def Let_def)

text \<open>
  C8: \<open>load_active_template\<close> returns a template only if a template row \<open>t\<close> and a match row
  \<open>m\<close> of the same code and version exist with \<open>txn_type\<close> equal to the argument, status
  \<open>ACTIVE\<close>, \<open>effective_date \<le> txn_date < expiry_date\<close>, and product code and channel of \<open>m\<close>
  equal to the arguments or null; the returned template is that of a row which comes first
  among all matching rows \<open>m'\<close>: lower priority number, then a non-null product code before
  a null one, then a non-null channel before a null one.  When no pair of rows matches, and
  only then, the call raises \<open>NoActiveTemplateError\<close>; it raises nothing else.
\<close>

theorem load_active_template_resolution:
  "(\<forall>tpl. load_active_template db ty pc ch d = Inr tpl \<longrightarrow>
      (\<exists>t \<in> set (journal_template db). \<exists>m \<in> set (journal_template_match db).
          template_code tpl = t_template_code t \<and> template_version tpl = t_template_version t
        \<and> m_template_code m = t_template_code t \<and> m_template_version m = t_template_version t
        \<and> t_txn_type t = ty \<and> t_status t = ''ACTIVE''
        \<and> date_le (t_effective_date t) d \<and> date_lt d (t_expiry_date t)
        \<and> (m_product_code m = Some pc \<or> m_product_code m = None)
        \<and> (m_channel m = Some ch \<or> m_channel m = None)
        \<and> (\<forall>t' \<in> set (journal_template db). \<forall>m' \<in> set (journal_template_match db).
              matches t' m' ty pc ch d \<longrightarrow>
                m_priority m < m_priority m'
                \<or> (m_priority m = m_priority m'
                   \<and> ((m_product_code m \<noteq> None \<and> m_product_code m' = None)
                      \<or> ((m_product_code m = None \<longleftrightarrow> m_product_code m' = None)
                         \<and> (m_channel m = None \<longrightarrow> m_channel m' = None)))))))
   \<and> (load_active_template db ty pc ch d = Inl NoActiveTemplateError \<longleftrightarrow>
        \<not> (\<exists>t \<in> set (journal_template db). \<exists>m \<in> set (journal_template_match db).
              matches t m ty pc ch d))
   \<and> (\<forall>e. load_active_template db ty pc ch d = Inl e \<longrightarrow> e = NoActiveTemplateError)"
proof (intro conjI allI impI)
  fix tpl assume "load_active_template db ty pc ch d = Inr tpl"
  then obtain t m where sel: "order_by_limit_1 (match_rows db ty pc ch d) = Some (t, m)"
    and code: "template_code tpl = t_template_code t" "template_version tpl = t_template_version t"
    using load_active_template_Inr by blast
  from order_by_limit_1_least [OF sel]
  have mem: "(t, m) \<in> set (match_rows db ty pc ch d)"
    and least: "\<forall>r' \<in> set (match_rows db ty pc ch d). key_le (order_key m) (order_key (snd r'))"
    by auto
  from mem have t: "t \<in> set (journal_template db)" and m: "m \<in> set (journal_template_match db)"
    and mt: "matches t m ty pc ch d"
    by (auto simp: set_match_rows)
  have first: "\<forall>t' \<in> set (journal_template db). \<forall>m' \<in> set (journal_template_match db).
              matches t' m' ty pc ch d \<longrightarrow>
                m_priority m < m_priority m'
                \<or> (m_priority m = m_priority m'
                   \<and> ((m_product_code m \<noteq> None \<and> m_product_code m' = None)
                      \<or> ((m_product_code m = None \<longleftrightarrow> m_product_code m' = None)
                         \<and> (m_channel m = None \<longrightarrow> m_channel m' = None))))"
  proof (intro ballI impI)
    fix t' m'
    assume "t' \<in> set (journal_template db)" "m' \<in> set (journal_template_match db)"
      "matches t' m' ty pc ch d"
    then have "(t', m') \<in> set (match_rows db ty pc ch d)" by (simp add: set_match_rows)
    with least have "key_le (order_key m) (order_key m')" by fastforce
    then show "m_priority m < m_priority m'
                \<or> (m_priority m = m_priority m'
                   \<and> ((m_product_code m \<noteq> None \<and> m_product_code m' = None)
                      \<or> ((m_product_code m = None \<longleftrightarrow> m_product_code m' = None)
                         \<and> (m_channel m = None \<longrightarrow> m_channel m' = None))))"
      by (simp only: key_le_order_key)
  qed
  from mt have fields: "m_template_code m = t_template_code t" "m_template_version m = t_template_version t"
      "t_txn_type t = ty" "t_status t = ''ACTIVE''"
      "date_le (t_effective_date t) d" "date_lt d (t_expiry_date t)"
      "m_product_code m = Some pc \<or> m_product_code m = None"
      "m_channel m = Some ch \<or> m_channel m = None"
    by (simp_all add: matches_def)
  show "\<exists>t \<in> set (journal_template db). \<exists>m \<in> set (journal_template_match db).
          template_code tpl = t_template_code t \<and> template_version tpl = t_template_version t
        \<and> m_template_code m = t_template_code t \<and> m_template_version m = t_template_version t
        \<and> t_txn_type t = ty \<and> t_status t = ''ACTIVE''
        \<and> date_le (t_effective_date t) d \<and> date_lt d (t_expiry_date t)
        \<and> (m_product_code m = Some pc \<or> m_product_code m = None)
        \<and> (m_channel m = Some ch \<or> m_channel m = None)
        \<and> (\<forall>t' \<in> set (journal_template db). \<forall>m' \<in> set (journal_template_match db).
              matches t' m' ty pc ch d \<longrightarrow>
                m_priority m < m_priority m'
                \<or> (m_priority m = m_priority m'
                   \<and> ((m_product_code m \<noteq> None \<and> m_product_code m' = None)
                      \<or> ((m_product_code m = None \<longleftrightarrow> m_product_code m' = None)
                         \<and> (m_channel m = None \<longrightarrow> m_channel m' = None)))))"
    using t m code fields first by blast
next
  have "match_rows db ty pc ch d = [] \<longleftrightarrow>
          \<not> (\<exists>t \<in> set (journal_template db). \<exists>m \<in> set (journal_template_match db).
                matches t m ty pc ch d)"
    using set_match_rows [of db ty pc ch d] by (auto simp: set_empty [symmetric] simp del: set_empty)
  then show "load_active_template db ty pc ch d = Inl NoActiveTemplateError \<longleftrightarrow>
        \<not> (\<exists>t \<in> set (journal_template db). \<exists>m \<in> set (journal_template_match db).
              matches t m ty pc ch d)"
    by (simp add: load_active_template_Inl)
next
  fix e assume "load_active_template db ty pc ch d = Inl e"
  then show "e = NoActiveTemplateError" by (simp add: load_active_template_Inl)
qed

theorem load_active_template_resolution_witness:
  "(\<exists>tpl. load_active_template sample_db ''PREMIUM_RECEIPT'' ''FAM01'' ''AGENCY'' sample_date = Inr tpl
      \<and> template_code tpl = ''FAM''
      \<and> (\<exists>t \<in> set (journal_template sample_db). \<exists>m \<in> set (journal_template_match sample_db).
            template_code tpl = t_template_code t \<and> m_template_code m = t_template_code t
          \<and> t_txn_type t = ''PREMIUM_RECEIPT'' \<and> t_status t = ''ACTIVE''
          \<and> date_le (t_effective_date t) sample_date \<and> date_lt sample_date (t_expiry_date t)))
   \<and> load_active_template sample_db ''CLAIM_PAID'' ''FAM01'' ''AGENCY'' sample_date
       = Inl NoActiveTemplateError"
proof -
  have "map_sum id template_code
          (load_active_template sample_db ''PREMIUM_RECEIPT'' ''FAM01'' ''AGENCY'' sample_date)
        = Inr ''FAM''"
    by code_simp
  then obtain tpl where
    tpl: "load_active_template sample_db ''PREMIUM_RECEIPT'' ''FAM01'' ''AGENCY'' sample_date = Inr tpl"
      "template_code tpl = ''FAM''"
    by (cases "load_active_template sample_db ''PREMIUM_RECEIPT'' ''FAM01'' ''AGENCY'' sample_date") auto
  have none: "\<not> (\<exists>t \<in> set (journal_template sample_db). \<exists>m \<in> set (journal_template_match sample_db).
                    matches t m ''CLAIM_PAID'' ''FAM01'' ''AGENCY'' sample_date)"
    by (simp add: sample_db_def matches_def)
  show ?thesis
    using load_active_template_resolution
            [of sample_db "''PREMIUM_RECEIPT''" "''FAM01''" "''AGENCY''" sample_date]
          load_active_template_resolution
            [of sample_db "''CLAIM_PAID''" "''FAM01''" "''AGENCY''" sample_date]
          tpl none
    by blast
qed

section \<open>Properties of the expansion engine\<close>

lemma resolve_je_columns:
  "resolve_cols input_cols je_column_refs = Inl (ColumnNotFoundError ''_yyyymm'')"
  by (simp add: input_cols_def je_column_refs_def)

text \<open>
  A non-empty batch gets as far as the template of its first row and no further: the
  expansion raises the error of the template resolution, or the error of lines 24 to 28.
\<close>

lemma expand_transactions_nonempty:
  assumes "df_txn \<noteq> []"
  shows "expand_transactions P db run_id df_txn cb =
           (case load_active_template db (txn_type (hd df_txn)) (product_code (hd df_txn))
                   (channel (hd df_txn)) (bank_value_date (hd df_txn)) of
              Inl e \<Rightarrow> Inl e
            | Inr tpl \<Rightarrow> Inl (ColumnNotFoundError ''_yyyymm''))"
  using assms
  by (simp add: expand_transactions_def Let_def resolve_je_columns split: sum.splits)

lemma expand_transactions_returns_empty:
  assumes "expand_transactions P db run_id df_txn cb = Inr (headers, ls, r)"
  shows "df_txn = [] \<and> headers = [] \<and> ls = [] \<and> r = run_id"
proof (cases "df_txn = []")
  case True
  with assms show ?thesis by (simp add: expand_transactions_def)
next
  case False
  from expand_transactions_nonempty [OF False, of P db run_id cb] assms
  show ?thesis by (simp split: sum.splits)
qed

text \<open>
  C1, at the failing input.  One transaction of product \<open>FAM01\<close> with gross amount
  100000.00 and admin amount 99999.98, against template \<open>FAM\<close>, which debits the gross
  amount and credits the admin amount, with the default control (balance required,
  tolerance 0.01).  The two sides differ by 0.02.  The expansion raises, but not
  \<open>UnbalancedJournalError\<close>: the call of lines 24 to 28 fails on the column \<open>_yyyymm\<close>, and
  the validation of lines 97 to 110 is not reached.
\<close>

theorem expand_unbalanced_batch:
  "expand_transactions sample_polars sample_db ''run-1''
     [sample_txn ''TXN-1'' ''FAM01'' ''AGENCY'' 100000 (9999998 / 100)] ''system''
   = Inl (ColumnNotFoundError ''_yyyymm'')"
  by code_simp

text \<open>
  C5, at the failing input.  Two expansions of one transaction with source row \<open>TXN-1\<close>
  and value date 2025-10-03, under two run identifiers.  Neither yields the header number
  \<open>JE-202510-TXN-1\<close>: both raise at lines 24 to 28, where the number is to be built.
\<close>

theorem expand_yields_no_header_number:
  "expand_transactions sample_polars sample_db ''run-1''
     [sample_txn ''TXN-1'' ''LIFE01'' ''AGENCY'' 150000 0] ''system''
   = Inl (ColumnNotFoundError ''_yyyymm'')
   \<and> expand_transactions sample_polars sample_db ''run-2''
        [sample_txn ''TXN-1'' ''LIFE01'' ''AGENCY'' 150000 0] ''system''
      = Inl (ColumnNotFoundError ''_yyyymm'')"
  by code_simp

text \<open>
  C6, at the failing input.  In \<open>sample_batch\<close> the first transaction has a non-zero gross
  amount, for the unconditional lines 1 and 2 of template \<open>PREM\<close>, and the second satisfies
  the condition of lines 3 and 4 with a non-zero admin amount.  No row is kept for any
  line: the expansion raises at lines 24 to 28, before the loop over the template lines.
\<close>

theorem expand_keeps_no_row:
  "expand_transactions sample_polars sample_db ''run-1'' sample_batch ''system''
   = Inl (ColumnNotFoundError ''_yyyymm'')"
  by code_simp

text \<open>
  C10, at the failing input.  The batch is \<open>sample_batch\<close> in reverse order.  Its first
  row resolves to template \<open>FAM\<close>; the expansion then raises at lines 24 to 28, so
  no header and no line is emitted that could carry the template or the run identifier.
\<close>

theorem expand_stops_after_resolution:
  "map_sum id template_code
     (load_active_template sample_db (txn_type (hd (rev sample_batch)))
        (product_code (hd (rev sample_batch))) (channel (hd (rev sample_batch)))
        (bank_value_date (hd (rev sample_batch)))) = Inr ''FAM''
   \<and> expand_transactions sample_polars sample_db ''run-1'' (rev sample_batch) ''system''
      = Inl (ColumnNotFoundError ''_yyyymm'')"
  by code_simp

section \<open>Properties of the ledger poster\<close>

lemma copy_from_polars_fails: "copy_from_polars table rows = Inl ProgrammingError"
  by (simp add: copy_from_polars_def cursor_execute_def)

lemma post_to_ledger_fails: "\<exists>e. post_to_ledger db now headers ls year month = Inl e"
proof (cases "month_bounds year month")
  case (Inl e)
  then show ?thesis by (simp add: post_to_ledger_def)
next
  case (Inr bounds)
  obtain start_date end_date where "bounds = (start_date, end_date)" by (cases bounds)
  with Inr show ?thesis
    by (cases "headers = []") (simp_all add: post_to_ledger_def copy_from_polars_fails)
qed


end
